theory Spec2Isabelle
  imports Main "HOL-Library.Sublist"
begin

section \<open>Strings\<close>

text \<open>
  A JavaScript string is modelled as a HOL \<open>string\<close>: a list of 8-bit characters, read as
  the Latin-1 code points U+0000 to U+00FF. Strings with code units above U+00FF are outside
  the model.
\<close>

text \<open>
  \<^verbatim>\<open>String.prototype.toLowerCase\<close> on one Latin-1 character: the letters A to Z and the
  accented capitals U+00C0 to U+00DE (the multiplication sign U+00D7 apart) move up by 32, every
  other character stays.
\<close>

definition lower_char :: "char \<Rightarrow> char" where
  "lower_char c =
     (let n = (of_char c :: nat) in
      if (65 \<le> n \<and> n \<le> 90) \<or> (192 \<le> n \<and> n \<le> 222 \<and> n \<noteq> 215)
      then char_of (n + 32) else c)"

definition toLowerCase :: "string \<Rightarrow> string" where
  "toLowerCase s = map lower_char s"

section \<open>The suggestion generator of the agent chat (lume-agent/components/ChatInterface.tsx)\<close>

text \<open>
  \<^verbatim>\<open>function generateSuggestions(service?: string, action?: string): string[]\<close>.
  An optional argument is an \<open>option\<close>; \<open>!service\<close> holds for \<open>undefined\<close> and for the
  empty string. The local \<open>a\<close> is computed and never read.
\<close>

definition generateSuggestions :: "string option \<Rightarrow> string option \<Rightarrow> string list" where
  "generateSuggestions service action =
     (case service of
        None \<Rightarrow> [''Tell me more'', ''Undo'', ''Help'']
      | Some sv \<Rightarrow>
          if sv = [] then [''Tell me more'', ''Undo'', ''Help'']
          else
            let s = toLowerCase sv;
                a = toLowerCase (case action of None \<Rightarrow> [] | Some av \<Rightarrow> av)
            in
              if s = ''gmail'' then [''Show inbox'', ''Draft a reply'', ''Search email from Alex'']
              else if s = ''calendar'' then [''View my week'', ''Create event'', ''Reschedule meeting'']
              else if s = ''tasks'' then [''List tasks'', ''Add a task'', ''Mark task done'']
              else if s = ''keep'' then [''New note'', ''Search notes'', ''Make a checklist'']
              else if s = ''maps'' then [''Nearby cafes'', ''Traffic to work'', ''Best route home'']
              else [''Okay'', ''Another example'', ''Help''])"

text \<open>
  The decision rule in the words of the specification: a fixed list of categories, scanned in
  order, the first one whose name equals the lowercased input wins, and a fallback list when
  none does.
\<close>

definition suggestion_categories :: "(string \<times> string list) list" where
  "suggestion_categories =
     [(''gmail'', [''Show inbox'', ''Draft a reply'', ''Search email from Alex'']),
      (''calendar'', [''View my week'', ''Create event'', ''Reschedule meeting'']),
      (''tasks'', [''List tasks'', ''Add a task'', ''Mark task done'']),
      (''keep'', [''New note'', ''Search notes'', ''Make a checklist'']),
      (''maps'', [''Nearby cafes'', ''Traffic to work'', ''Best route home''])]"

definition first_match_spec :: "string option \<Rightarrow> string list" where
  "first_match_spec service =
     (case service of
        None \<Rightarrow> [''Tell me more'', ''Undo'', ''Help'']
      | Some sv \<Rightarrow>
          (case find (\<lambda>(name, sugg). name = toLowerCase sv) suggestion_categories of
             Some (name, sugg) \<Rightarrow> sugg
           | None \<Rightarrow> [''Okay'', ''Another example'', ''Help'']))"


section \<open>JavaScript values\<close>

text \<open>
  The result of \<^verbatim>\<open>JSON.parse\<close> and of \<^verbatim>\<open>response.json()\<close>. Numbers are integers. The list of
  an object holds its properties, each name once.
\<close>

datatype json = JNull | JBool bool | JNum int | JStr string | JArr "json list"
  | JObj "(string \<times> json) list"

datatype js_value = Undefined | Val json

text \<open>
  Reading a property: on \<^verbatim>\<open>null\<close> it throws a \<^verbatim>\<open>TypeError\<close> (\<open>None\<close>), on an object it gives
  the property or \<^verbatim>\<open>undefined\<close>, and the names read in this program are no properties of a
  boolean, a number, a string or an array.
\<close>

definition get_property :: "json \<Rightarrow> string \<Rightarrow> js_value option" where
  "get_property j k =
     (case j of
        JNull \<Rightarrow> None
      | JObj fs \<Rightarrow> Some (case map_of fs k of None \<Rightarrow> Undefined | Some v \<Rightarrow> Val v)
      | _ \<Rightarrow> Some Undefined)"

definition js_truthy :: "js_value \<Rightarrow> bool" where
  "js_truthy v =
     (case v of
        Undefined \<Rightarrow> False
      | Val JNull \<Rightarrow> False
      | Val (JBool b) \<Rightarrow> b
      | Val (JNum n) \<Rightarrow> n \<noteq> 0
      | Val (JStr s) \<Rightarrow> s \<noteq> []
      | Val (JArr xs) \<Rightarrow> True
      | Val (JObj fs) \<Rightarrow> True)"

definition digit_char :: "nat \<Rightarrow> char" where
  "digit_char d = char_of (48 + d)"

function show_nat :: "nat \<Rightarrow> string" where
  "show_nat n = (if n < 10 then [digit_char n] else show_nat (n div 10) @ [digit_char (n mod 10)])"
  by pat_completeness auto
termination
  by (relation "measure (\<lambda>n. n)") auto

declare show_nat.simps [simp del]

definition show_int :: "int \<Rightarrow> string" where
  "show_int i = (if i < 0 then CHR ''-'' # show_nat (nat (- i)) else show_nat (nat i))"

text \<open>\<^verbatim>\<open>Array.prototype.join\<close> on strings.\<close>

fun join_with :: "string \<Rightarrow> string list \<Rightarrow> string" where
  "join_with sep [] = []"
| "join_with sep [x] = x"
| "join_with sep (x # y # ys) = x @ sep @ join_with sep (y # ys)"

text \<open>
  The string a value becomes inside a template literal and in \<^verbatim>\<open>localStorage.setItem\<close>.
\<close>

fun json_to_string :: "json \<Rightarrow> string" where
  "json_to_string JNull = ''null''"
| "json_to_string (JBool b) = (if b then ''true'' else ''false'')"
| "json_to_string (JNum n) = show_int n"
| "json_to_string (JStr s) = s"
| "json_to_string (JArr xs) =
     join_with '','' (map (\<lambda>x. if x = JNull then [] else json_to_string x) xs)"
| "json_to_string (JObj fs) = ''[object Object]''"

definition js_to_string :: "js_value \<Rightarrow> string" where
  "js_to_string v = (case v of Undefined \<Rightarrow> ''undefined'' | Val j \<Rightarrow> json_to_string j)"

text \<open>\<^verbatim>\<open>String.prototype.trim\<close>: the white space of Latin-1.\<close>

definition js_space :: "char \<Rightarrow> bool" where
  "js_space c = ((of_char c :: nat) \<in> {9, 10, 11, 12, 13, 32, 160})"

definition js_trim :: "string \<Rightarrow> string" where
  "js_trim s = rev (dropWhile js_space (rev (dropWhile js_space s)))"

text \<open>
  \<^verbatim>\<open>encodeURIComponent\<close>: letters, digits and \<^verbatim>\<open>-_.!~*'()\<close> stay, every other character
  becomes the percent-encoded bytes of its UTF-8 form.
\<close>

definition hex_digit :: "nat \<Rightarrow> char" where
  "hex_digit d = (if d < 10 then char_of (48 + d) else char_of (55 + d))"

definition percent_byte :: "nat \<Rightarrow> string" where
  "percent_byte b = [CHR ''%'', hex_digit (b div 16), hex_digit (b mod 16)]"

definition uri_unreserved :: "char \<Rightarrow> bool" where
  "uri_unreserved c =
     (let n = (of_char c :: nat) in
      (48 \<le> n \<and> n \<le> 57) \<or> (65 \<le> n \<and> n \<le> 90) \<or> (97 \<le> n \<and> n \<le> 122) \<or>
      c \<in> set ''-_.!~*'()'')"

definition encode_char :: "char \<Rightarrow> string" where
  "encode_char c =
     (let n = (of_char c :: nat) in
      if uri_unreserved c then [c]
      else if n < 128 then percent_byte n
      else percent_byte (192 + n div 64) @ percent_byte (128 + n mod 64))"

definition encodeURIComponent :: "string \<Rightarrow> string" where
  "encodeURIComponent s = concat (map encode_char s)"

section \<open>The API client: requests, errors, the browser\<close>

datatype http_method = GET | POST | PUT | DELETE | PATCH

text \<open>
  \<^verbatim>\<open>HttpRequestConfig\<close>; \<open>cfg_retry\<close> is the flag \<^verbatim>\<open>_retry\<close>. The field \<^verbatim>\<open>metadata\<close> is never
  read.
\<close>

record HttpRequestConfig =
  cfg_method :: http_method
  cfg_url :: string
  cfg_headers :: "(string \<rightharpoonup> string) option"
  cfg_body :: "json option"
  cfg_timeout :: "nat option"
  cfg_retry :: bool

text \<open>\<^verbatim>\<open>HttpResponse\<close>, with the two fields the callers read.\<close>

record HttpResponse =
  resp_data :: json
  resp_status :: nat

text \<open>
  A thrown \<^verbatim>\<open>Error\<close>. \<open>err_response\<close> is \<open>None\<close> when the error has no property
  \<^verbatim>\<open>response\<close>, \<open>Some None\<close> when the property is there and falsy, and \<open>Some (Some st)\<close> when
  it is the response object with status \<open>st\<close> (its \<^verbatim>\<open>data\<close> is always null). \<open>err_config\<close>
  tells whether \<^verbatim>\<open>config\<close> is set.
\<close>

record js_error =
  err_message :: string
  err_response :: "nat option option"
  err_config :: bool

text \<open>
  What awaiting an asynchronous call gives: a value, a rejection, or nothing at all, when the
  promise never settles.
\<close>

datatype 'a outcome = Returned 'a | Threw js_error | Hangs

record fetch_request =
  fr_method :: http_method
  fr_url :: string
  fr_headers :: "string \<rightharpoonup> string"
  fr_body :: "json option"

text \<open>
  What the network does with one \<^verbatim>\<open>fetch\<close>: it rejects (\<open>NetworkError\<close>), it never answers
  (\<open>Unanswered\<close>), or it answers with a status and a body. The body is JSON that parses, JSON
  that does not (\<^verbatim>\<open>response.json()\<close> throws), or text of another content type.
\<close>

datatype body = JsonBody json | BadJson string | TextBody string

datatype fetch_outcome = NetworkError string | Unanswered | Responded nat body

datatype promise_state = Pending | Resolved js_value | Rejected js_error

text \<open>
  The state one call can see and change: the browser (\<open>window_defined\<close> is false on the server
  side, where \<^verbatim>\<open>typeof window === 'undefined'\<close>), \<^verbatim>\<open>localStorage\<close>, the cookies visible to
  scripts, \<^verbatim>\<open>window.location.href\<close> once assigned, the two private fields \<^verbatim>\<open>isRefreshing\<close>
  and \<^verbatim>\<open>refreshPromise\<close> of \<^verbatim>\<open>LumeApiClient\<close>, and the promises created by \<^verbatim>\<open>refreshToken\<close>,
  named by their number. \<open>server\<close> answers the \<open>n\<close>-th fetch. \<open>fetch_log\<close> and
  \<open>getTaskStatus_calls\<close> are history variables: the requests given to \<^verbatim>\<open>fetch\<close> so far and
  the number of calls of \<^verbatim>\<open>api.getTaskStatus\<close> so far.

  An asynchronous function is modelled as it runs when each \<^verbatim>\<open>fetch\<close> it awaits is answered
  before anything else happens, and no other task of the page runs in between. Awaiting a
  promise that is still pending then never returns.
\<close>

record world =
  window_defined :: bool
  localStorage :: "string \<rightharpoonup> string"
  cookies :: "(string \<times> string) list"
  location_href :: "string option"
  baseURL :: string
  isRefreshing :: bool
  refreshPromise :: "nat option"
  promises :: "nat \<rightharpoonup> promise_state"
  promise_count :: nat
  server :: "nat \<Rightarrow> fetch_request \<Rightarrow> fetch_outcome"
  fetch_log :: "fetch_request list"
  getTaskStatus_calls :: nat

section \<open>TokenManager\<close>

definition TOKEN_KEY :: string where
  "TOKEN_KEY = ''lume_auth_token''"

definition REFRESH_TOKEN_KEY :: string where
  "REFRESH_TOKEN_KEY = ''lume_refresh_token''"

text \<open>
  The cookies of the document are a list of names with values, each name once: every cookie is
  one of this host with path \<^verbatim>\<open>/\<close>, as \<^verbatim>\<open>setToken\<close> writes it. Assigning
  \<^verbatim>\<open>name=value; path=/; ...\<close> to \<^verbatim>\<open>document.cookie\<close> stores the value up to the first semicolon;
  assigning it with an expiry date in the past removes the cookie.
\<close>

definition cookie_assign :: "string \<Rightarrow> string \<Rightarrow> (string \<times> string) list \<Rightarrow> (string \<times> string) list" where
  "cookie_assign name v jar =
     (let v' = js_trim (takeWhile (\<lambda>c. c \<noteq> CHR '';'') v) in
      if name \<in> fst ` set jar then map (\<lambda>(n, x). if n = name then (n, v') else (n, x)) jar
      else jar @ [(name, v')])"

definition cookie_expire :: "string \<Rightarrow> (string \<times> string) list \<Rightarrow> (string \<times> string) list" where
  "cookie_expire name jar = filter (\<lambda>(n, x). n \<noteq> name) jar"

text \<open>
  \<^verbatim>\<open>getCookieToken\<close>: the loop over \<^verbatim>\<open>document.cookie.split(';')\<close> returns at the first cookie
  of the name; \<^verbatim>\<open>split('=')\<close> cuts its value at the first equals sign.
\<close>

definition getCookieToken :: "world \<Rightarrow> string option" where
  "getCookieToken w =
     (if \<not> window_defined w then None
      else case find (\<lambda>(n, x). n = TOKEN_KEY) (cookies w) of
             None \<Rightarrow> None
           | Some (n, x) \<Rightarrow> Some (takeWhile (\<lambda>c. c \<noteq> CHR ''='') x))"

definition getToken :: "world \<Rightarrow> string option" where
  "getToken w =
     (if \<not> window_defined w then None
      else case getCookieToken w of
             Some t \<Rightarrow> if t \<noteq> [] then Some t else localStorage w TOKEN_KEY
           | None \<Rightarrow> localStorage w TOKEN_KEY)"

definition setToken :: "string \<Rightarrow> world \<Rightarrow> world" where
  "setToken token w =
     (if \<not> window_defined w then w
      else w\<lparr>localStorage := (localStorage w)(TOKEN_KEY \<mapsto> token),
             cookies := cookie_assign TOKEN_KEY token (cookies w)\<rparr>)"

definition getRefreshToken :: "world \<Rightarrow> string option" where
  "getRefreshToken w = (if \<not> window_defined w then None else localStorage w REFRESH_TOKEN_KEY)"

definition setRefreshToken :: "string \<Rightarrow> world \<Rightarrow> world" where
  "setRefreshToken token w =
     (if \<not> window_defined w then w
      else w\<lparr>localStorage := (localStorage w)(REFRESH_TOKEN_KEY \<mapsto> token)\<rparr>)"

definition clearTokens :: "world \<Rightarrow> world" where
  "clearTokens w =
     (if \<not> window_defined w then w
      else w\<lparr>localStorage := (localStorage w)(TOKEN_KEY := None, REFRESH_TOKEN_KEY := None),
             cookies := cookie_expire TOKEN_KEY (cookies w)\<rparr>)"

section \<open>LumeApiClient\<close>

text \<open>
  \<^verbatim>\<open>createHttpError(response, config, message)\<close>, the response given by its status. The
  property \<^verbatim>\<open>response\<close> is set only for a response that is not null.
\<close>

definition createHttpError :: "nat option \<Rightarrow> string option \<Rightarrow> js_error" where
  "createHttpError response message =
     \<lparr>err_message =
        (case message of
           Some m \<Rightarrow> if m \<noteq> [] then m
                     else ''HTTP '' @ show_nat (case response of None \<Rightarrow> 0 | Some st \<Rightarrow> st) @ '' Error''
         | None \<Rightarrow> ''HTTP '' @ show_nat (case response of None \<Rightarrow> 0 | Some st \<Rightarrow> st) @ '' Error''),
      err_response = (case response of None \<Rightarrow> None | Some st \<Rightarrow> Some (Some st)),
      err_config = True\<rparr>"

text \<open>An error thrown by the platform or by \<^verbatim>\<open>new Error(m)\<close>.\<close>

definition plain_error :: "string \<Rightarrow> js_error" where
  "plain_error m = \<lparr>err_message = m, err_response = None, err_config = False\<rparr>"

definition handleAuthFailure :: "world \<Rightarrow> world" where
  "handleAuthFailure w =
     (let w1 = clearTokens w in
      if window_defined w1 then w1\<lparr>location_href := Some ''/login''\<rparr> else w1)"

text \<open>The headers, the body and the request that \<^verbatim>\<open>makeRequest\<close> hands to \<^verbatim>\<open>fetch\<close>.\<close>

definition request_headers :: "HttpRequestConfig \<Rightarrow> world \<Rightarrow> (string \<rightharpoonup> string)" where
  "request_headers cfg w =
     (let headers = [''Content-Type'' \<mapsto> ''application/json''] ++
                      (case cfg_headers cfg of None \<Rightarrow> Map.empty | Some h \<Rightarrow> h) in
      case getToken w of
        None \<Rightarrow> headers
      | Some token \<Rightarrow> if token \<noteq> [] then headers(''Authorization'' \<mapsto> ''Bearer '' @ token) else headers)"

definition request_body :: "HttpRequestConfig \<Rightarrow> json option" where
  "request_body cfg =
     (case cfg_body cfg of None \<Rightarrow> None | Some b \<Rightarrow> if js_truthy (Val b) then Some b else None)"

definition request_of :: "HttpRequestConfig \<Rightarrow> world \<Rightarrow> fetch_request" where
  "request_of cfg w =
     \<lparr>fr_method = cfg_method cfg, fr_url = cfg_url cfg, fr_headers = request_headers cfg w,
      fr_body = request_body cfg\<rparr>"

text \<open>The abort timer is started only for a truthy \<^verbatim>\<open>config.timeout\<close>.\<close>

definition timeout_set :: "HttpRequestConfig \<Rightarrow> bool" where
  "timeout_set cfg = (case cfg_timeout cfg of None \<Rightarrow> False | Some t \<Rightarrow> t \<noteq> 0)"

definition fetch :: "fetch_request \<Rightarrow> world \<Rightarrow> fetch_outcome \<times> world" where
  "fetch req w = (server w (length (fetch_log w)) req, w\<lparr>fetch_log := fetch_log w @ [req]\<rparr>)"

text \<open>
  \<^verbatim>\<open>data\<close> after the content-type test: the parsed JSON, the text as a string, or the
  message of the \<^verbatim>\<open>SyntaxError\<close>.
\<close>

definition response_data :: "body \<Rightarrow> string + json" where
  "response_data b = (case b of JsonBody d \<Rightarrow> Inr d | BadJson m \<Rightarrow> Inl m | TextBody t \<Rightarrow> Inr (JStr t))"

definition response_ok :: "nat \<Rightarrow> bool" where
  "response_ok st = (200 \<le> st \<and> st \<le> 299)"

text \<open>
  Awaiting what \<^verbatim>\<open>refreshToken\<close> returned: \<^verbatim>\<open>this.refreshPromise!\<close> may be null, and
  awaiting null gives null.
\<close>

definition await_promise :: "world \<Rightarrow> nat option \<Rightarrow> promise_state" where
  "await_promise w p =
     (case p of
        None \<Rightarrow> Resolved (Val JNull)
      | Some i \<Rightarrow> (case promises w i of None \<Rightarrow> Pending | Some s \<Rightarrow> s))"

text \<open>
  The \<^verbatim>\<open>finally\<close> block of the refresh, followed by the settling of the promise of the
  asynchronous function around it.
\<close>

definition settle_refresh :: "nat \<Rightarrow> promise_state \<Rightarrow> world \<Rightarrow> world" where
  "settle_refresh p s w =
     w\<lparr>isRefreshing := False, refreshPromise := None, promises := (promises w)(p \<mapsto> s)\<rparr>"

definition refresh_config :: "world \<Rightarrow> string \<Rightarrow> HttpRequestConfig" where
  "refresh_config w rt =
     \<lparr>cfg_method = POST, cfg_url = baseURL w @ ''/auth/refresh'', cfg_headers = None,
      cfg_body = Some (JObj [(''refresh_token'', JStr rt)]), cfg_timeout = None, cfg_retry = False\<rparr>"

text \<open>
  The body of the refresh after \<^verbatim>\<open>await this.makeRequest(...)\<close>, for the promise \<open>p\<close> of
  the refresh and the settled request: the tokens of the answer are stored, the \<^verbatim>\<open>finally\<close>
  block runs and the promise settles. If the request never settles, neither does the promise,
  and the \<^verbatim>\<open>finally\<close> block is not reached. Destructuring a null answer throws.
\<close>

definition finish_refresh :: "nat \<Rightarrow> HttpResponse outcome \<times> world \<Rightarrow> nat option \<times> world" where
  "finish_refresh p requested =
     (let w4 = snd requested
      in case fst requested of
           Hangs \<Rightarrow> (Some p, w4)
         | Threw e \<Rightarrow> (Some p, settle_refresh p (Rejected e) w4)
         | Returned response \<Rightarrow>
             (case get_property (resp_data response) ''access_token'' of
                None \<Rightarrow>
                  (Some p, settle_refresh p
                     (Rejected (plain_error ''Cannot destructure property of null'')) w4)
              | Some access_token \<Rightarrow>
                  (let newRefreshToken =
                         (case get_property (resp_data response) ''refresh_token'' of
                            None \<Rightarrow> Undefined | Some v \<Rightarrow> v);
                       w5 = setToken (js_to_string access_token) w4;
                       w6 = (if js_truthy newRefreshToken
                             then setRefreshToken (js_to_string newRefreshToken) w5 else w5)
                   in (Some p, settle_refresh p (Resolved access_token) w6))))"

text \<open>
  \<^verbatim>\<open>makeRequest\<close> and \<^verbatim>\<open>refreshToken\<close> call each other. \<^verbatim>\<open>refreshToken\<close> returns the promise
  it stored. When no refresh token is stored, the body of the asynchronous function throws
  before its first \<^verbatim>\<open>await\<close>: its \<^verbatim>\<open>finally\<close> block runs, the call returns a rejected promise,
  and only then the assignment \<^verbatim>\<open>this.refreshPromise = ...\<close> around the call stores that
  promise. Otherwise the body stops at \<^verbatim>\<open>await this.makeRequest(...)\<close>, the pending promise is
  stored, and the rest of the body runs when the request has settled. The recursion ends
  because a retried request carries \<^verbatim>\<open>_retry\<close> and a refresh in flight is not started again.
\<close>

function makeRequest :: "HttpRequestConfig \<Rightarrow> world \<Rightarrow> HttpResponse outcome \<times> world"
  and refreshToken :: "world \<Rightarrow> nat option \<times> world"
where
  "makeRequest cfg w =
     (let headers = request_headers cfg w;
          sent = fetch (request_of cfg w) w;
          w1 = snd sent
      in case fst sent of
           NetworkError m \<Rightarrow> (Threw (plain_error m), w1)
         | Unanswered \<Rightarrow>
             if timeout_set cfg then (Threw (createHttpError None (Some ''Request timeout'')), w1)
             else (Hangs, w1)
         | Responded st b \<Rightarrow>
             (case response_data b of
                Inl m \<Rightarrow> (Threw (plain_error m), w1)
              | Inr d \<Rightarrow>
                  if st = 401 \<and> \<not> cfg_retry cfg then
                    (let called = refreshToken w1; w2 = snd called in
                     case await_promise w2 (fst called) of
                       Resolved newToken \<Rightarrow>
                         makeRequest
                           (cfg\<lparr>cfg_retry := True,
                                 cfg_headers := Some (headers(''Authorization'' \<mapsto> ''Bearer '' @ js_to_string newToken))\<rparr>)
                           w2
                     | Rejected refreshError \<Rightarrow>
                         (Threw (createHttpError (Some st) (Some ''Token refresh failed'')),
                          handleAuthFailure w2)
                     | Pending \<Rightarrow> (Hangs, w2))
                  else if \<not> response_ok st then (Threw (createHttpError (Some st) None), w1)
                  else (Returned \<lparr>resp_data = d, resp_status = st\<rparr>, w1)))"
| "refreshToken w =
     (if isRefreshing w then (refreshPromise w, w)
      else
        let w1 = w\<lparr>isRefreshing := True\<rparr>;
            p = promise_count w1;
            w2 = w1\<lparr>promise_count := Suc p\<rparr>
        in case (case getRefreshToken w2 of None \<Rightarrow> None | Some t \<Rightarrow> if t = [] then None else Some t) of
             None \<Rightarrow>
               (let w3 = settle_refresh p (Rejected (plain_error ''No refresh token available'')) w2
                in (Some p, w3\<lparr>refreshPromise := Some p\<rparr>))
           | Some rt \<Rightarrow>
               (let w3 = w2\<lparr>promises := (promises w2)(p \<mapsto> Pending), refreshPromise := Some p\<rparr>
                in finish_refresh p (makeRequest (refresh_config w3 rt) w3)))"
  by pat_completeness auto
termination
  apply (relation "measure (\<lambda>x. case x of
            Inl (cfg, w) \<Rightarrow> (if cfg_retry cfg then 0 else if isRefreshing w then 1 else 3)
          | Inr w \<Rightarrow> (if isRefreshing w then 0 else (2::nat)))")
  apply (auto simp: fetch_def refresh_config_def)
  done

declare makeRequest.simps [simp del] refreshToken.simps [simp del]

record ApiError =
  ae_message :: string
  ae_status :: nat
  ae_code :: "string option"

text \<open>
  \<^verbatim>\<open>handleError\<close>: an error with a response object, an error whose \<^verbatim>\<open>response\<close> is there and
  falsy while \<^verbatim>\<open>config\<close> is set, and every other error.
\<close>

definition handleError :: "js_error \<Rightarrow> ApiError" where
  "handleError error =
     (case err_response error of
        Some (Some st) \<Rightarrow> \<lparr>ae_message = err_message error, ae_status = st, ae_code = None\<rparr>
      | Some None \<Rightarrow>
          if err_config error
          then \<lparr>ae_message = ''Network error - please check your connection'', ae_status = 0,
                ae_code = Some ''NETWORK_ERROR''\<rparr>
          else \<lparr>ae_message = (if err_message error \<noteq> [] then err_message error
                              else ''An unexpected error occurred''),
                ae_status = 500, ae_code = Some ''UNKNOWN_ERROR''\<rparr>
      | None \<Rightarrow>
          \<lparr>ae_message = (if err_message error \<noteq> [] then err_message error
                         else ''An unexpected error occurred''),
           ae_status = 500, ae_code = Some ''UNKNOWN_ERROR''\<rparr>)"

text \<open>\<^verbatim>\<open>ApiResponse\<close>.\<close>

record ApiResponse =
  ar_data :: "json option"
  ar_status :: nat
  ar_error :: "string option"
  ar_message :: "string option"

definition plain_config :: "http_method \<Rightarrow> string \<Rightarrow> HttpRequestConfig" where
  "plain_config m u =
     \<lparr>cfg_method = m, cfg_url = u, cfg_headers = None, cfg_body = None, cfg_timeout = None,
      cfg_retry = False\<rparr>"

text \<open>The object built in the \<^verbatim>\<open>catch\<close> blocks of the API methods.\<close>

definition failure_response :: "js_error \<Rightarrow> string \<Rightarrow> ApiResponse" where
  "failure_response error msg =
     (let apiError = handleError error in
      \<lparr>ar_data = None, ar_status = ae_status apiError, ar_error = Some (ae_message apiError),
       ar_message = Some msg\<rparr>)"

definition getTaskStatus :: "string \<Rightarrow> world \<Rightarrow> ApiResponse outcome \<times> world" where
  "getTaskStatus taskId w0 =
     (let w = w0\<lparr>getTaskStatus_calls := Suc (getTaskStatus_calls w0)\<rparr> in
      if taskId = [] \<or> js_trim taskId = []
      then (Returned (failure_response (plain_error ''Task ID is required'') ''Failed to get task status''), w)
      else
        let requested = makeRequest (plain_config GET (baseURL w @ ''/api/tasks/'' @ encodeURIComponent taskId)) w;
            w1 = snd requested
        in case fst requested of
             Returned response \<Rightarrow>
               (Returned \<lparr>ar_data = Some (resp_data response), ar_status = resp_status response,
                          ar_error = None, ar_message = Some ''Task status retrieved successfully''\<rparr>, w1)
           | Threw error \<Rightarrow> (Returned (failure_response error ''Failed to get task status''), w1)
           | Hangs \<Rightarrow> (Hangs, w1))"


section \<open>pollTaskStatus\<close>

text \<open>
  The options of \<^verbatim>\<open>pollTaskStatus\<close>. \<^verbatim>\<open>maxAttempts\<close> is an integer here. The callback
  \<^verbatim>\<open>onProgress\<close> is given by what it does to its caller: it returns (\<open>None\<close>) or throws.
\<close>

record poll_options =
  opt_interval :: "nat option"
  opt_maxAttempts :: "int option"
  opt_onProgress :: "(js_value \<Rightarrow> js_error option) option"

definition status_of :: "js_value \<Rightarrow> js_value option" where
  "status_of v = (case v of Undefined \<Rightarrow> None | Val j \<Rightarrow> get_property j ''status'')"

definition terminal :: "js_value \<Rightarrow> bool" where
  "terminal s = (s = Val (JStr ''completed'') \<or> s = Val (JStr ''failed''))"

text \<open>
  The \<^verbatim>\<open>for\<close> loop, from the value \<open>attempt\<close> of its counter on. The pause between two polls
  changes nothing in the state.
\<close>

function poll_loop ::
  "string \<Rightarrow> int \<Rightarrow> (js_value \<Rightarrow> js_error option) option \<Rightarrow> int \<Rightarrow> world \<Rightarrow> js_value outcome \<times> world"
where
  "poll_loop taskId maxAttempts onProgress attempt w =
     (if attempt < maxAttempts then
        (let polled = getTaskStatus taskId w; w1 = snd polled in
         case fst polled of
           Hangs \<Rightarrow> (Hangs, w1)
         | Threw e \<Rightarrow> (Threw e, w1)
         | Returned response \<Rightarrow>
             (case (case ar_error response of None \<Rightarrow> None | Some e \<Rightarrow> if e = [] then None else Some e) of
                Some e \<Rightarrow> (Threw (plain_error e), w1)
              | None \<Rightarrow>
                  (let status = (case ar_data response of None \<Rightarrow> Undefined | Some d \<Rightarrow> Val d) in
                   case (case onProgress of None \<Rightarrow> None | Some f \<Rightarrow> f status) of
                     Some e \<Rightarrow> (Threw e, w1)
                   | None \<Rightarrow>
                       (case status_of status of
                          None \<Rightarrow> (Threw (plain_error ''Cannot read properties of null or undefined''), w1)
                        | Some s \<Rightarrow>
                            if terminal s then (Returned status, w1)
                            else poll_loop taskId maxAttempts onProgress (attempt + 1) w1))))
      else (Threw (plain_error ''Task polling timeout - maximum attempts reached''), w))"
  by pat_completeness auto
termination
  by (relation "measure (\<lambda>(taskId, maxAttempts, onProgress, attempt, w). nat (maxAttempts - attempt))") auto

declare poll_loop.simps [simp del]

text \<open>The default of the destructuring: \<^verbatim>\<open>maxAttempts = 30\<close>.\<close>

definition maxAttempts_of :: "poll_options \<Rightarrow> int" where
  "maxAttempts_of options = (case opt_maxAttempts options of None \<Rightarrow> 30 | Some m \<Rightarrow> m)"

definition pollTaskStatus :: "string \<Rightarrow> poll_options \<Rightarrow> world \<Rightarrow> js_value outcome \<times> world" where
  "pollTaskStatus taskId options w =
     poll_loop taskId (maxAttempts_of options) (opt_onProgress options) 0 w"

section \<open>Token expiry (TokenManager.isTokenExpired)\<close>

text \<open>\<^verbatim>\<open>String.prototype.split\<close> with a one-character separator.\<close>

fun split_on :: "char \<Rightarrow> string \<Rightarrow> string list" where
  "split_on sep [] = [[]]"
| "split_on sep (c # cs) =
     (if c = sep then [] # split_on sep cs
      else (case split_on sep cs of
              [] \<Rightarrow> [[c]]
            | piece # pieces \<Rightarrow> (c # piece) # pieces))"

text \<open>
  \<^verbatim>\<open>atob\<close>, the forgiving base64 decoder of the platform: ASCII whitespace is dropped, one or
  two padding signs are removed from an input whose length is a multiple of four, a length of
  1 modulo 4 or a character outside the alphabet fails (\<open>None\<close>: \<^verbatim>\<open>InvalidCharacterError\<close>), and
  the six-bit values are regrouped into bytes, the leftover bits discarded.
\<close>

definition b64_value :: "char \<Rightarrow> nat option" where
  "b64_value c =
     (let n = (of_char c :: nat) in
      if 65 \<le> n \<and> n \<le> 90 then Some (n - 65)
      else if 97 \<le> n \<and> n \<le> 122 then Some (n - 71)
      else if 48 \<le> n \<and> n \<le> 57 then Some (n + 4)
      else if c = CHR ''+'' then Some 62
      else if c = CHR ''/'' then Some 63
      else None)"

fun b64_bytes :: "nat list \<Rightarrow> nat list" where
  "b64_bytes (a # b # c # d # rest) =
     [a * 4 + b div 16, (b mod 16) * 16 + c div 4, (c mod 4) * 64 + d] @ b64_bytes rest"
| "b64_bytes [a, b, c] = [a * 4 + b div 16, (b mod 16) * 16 + c div 4]"
| "b64_bytes [a, b] = [a * 4 + b div 16]"
| "b64_bytes rest = []"

definition ascii_whitespace :: "char \<Rightarrow> bool" where
  "ascii_whitespace c = ((of_char c :: nat) \<in> {9, 10, 12, 13, 32})"

definition strip_padding :: "string \<Rightarrow> string" where
  "strip_padding s =
     (if length s mod 4 = 0 then
        (if 2 \<le> length s \<and> drop (length s - 2) s = ''=='' then take (length s - 2) s
         else if 1 \<le> length s \<and> drop (length s - 1) s = ''='' then take (length s - 1) s
         else s)
      else s)"

definition atob :: "string \<Rightarrow> string option" where
  "atob s =
     (let d = strip_padding (filter (\<lambda>c. \<not> ascii_whitespace c) s) in
      if length d mod 4 = 1 then None
      else case those (map b64_value d) of
             None \<Rightarrow> None
           | Some vs \<Rightarrow> Some (map char_of (b64_bytes vs)))"

text \<open>
  \<^verbatim>\<open>payload.exp < currentTime\<close> with a number on the right: the left operand is converted to a
  number. \<^verbatim>\<open>undefined\<close> gives NaN and every comparison with NaN is false; \<^verbatim>\<open>null\<close> gives 0,
  the booleans give 0 and 1. The conversion of a string, an array or an object is the parameter
  \<open>ToNumber\<close>; it can throw. \<open>None\<close> stands for a thrown \<^verbatim>\<open>TypeError\<close>. Numbers are integers:
  a payload with a fractional number is outside the model.
\<close>

datatype number = NaN | Number int

definition less_than_number :: "(json \<Rightarrow> number option) \<Rightarrow> js_value \<Rightarrow> int \<Rightarrow> bool option" where
  "less_than_number ToNumber v n =
     (case v of
        Undefined \<Rightarrow> Some False
      | Val JNull \<Rightarrow> Some (0 < n)
      | Val (JBool b) \<Rightarrow> Some ((if b then 1 else 0) < n)
      | Val (JNum x) \<Rightarrow> Some (x < n)
      | Val j \<Rightarrow>
          (case ToNumber j of
             None \<Rightarrow> None
           | Some NaN \<Rightarrow> Some False
           | Some (Number x) \<Rightarrow> Some (x < n)))"

text \<open>
  \<^verbatim>\<open>TokenManager.isTokenExpired(token)\<close>. The platform's \<^verbatim>\<open>JSON.parse\<close> (\<open>None\<close> when it
  throws) and number conversion are parameters, \<open>currentTime\<close> is
  \<^verbatim>\<open>Math.floor(Date.now() / 1000)\<close>. \<open>token_segment\<close> is what \<^verbatim>\<open>atob\<close> receives:
  \<^verbatim>\<open>token.split('.')[1]\<close>, and for a token without a second segment the string form of
  \<^verbatim>\<open>undefined\<close>. Every exception inside the \<^verbatim>\<open>try\<close> block gives \<open>True\<close>.
\<close>

definition token_segment :: "string \<Rightarrow> string" where
  "token_segment token =
     (let pieces = split_on CHR ''.'' token
      in if 1 < length pieces then pieces ! 1 else ''undefined'')"

definition isTokenExpired ::
  "(string \<Rightarrow> json option) \<Rightarrow> (json \<Rightarrow> number option) \<Rightarrow> int \<Rightarrow> string \<Rightarrow> bool" where
  "isTokenExpired JSON_parse ToNumber currentTime token =
     (case atob (token_segment token) of
           None \<Rightarrow> True
         | Some text \<Rightarrow>
             (case JSON_parse text of
                None \<Rightarrow> True
              | Some payload \<Rightarrow>
                  (case get_property payload ''exp'' of
                     None \<Rightarrow> True
                   | Some exp \<Rightarrow>
                       (case less_than_number ToNumber exp currentTime of
                          None \<Rightarrow> True
                        | Some expired \<Rightarrow> expired))))"


section \<open>The message list of the agent chat (lume-agent/components/ChatInterface.tsx)\<close>


datatype MessageStatus = Sending | Sent | Delivered | Read | StatusError















section \<open>The message list of the web frontend (lume_frontend/src/components/ChatInterface.tsx)\<close>

text \<open>
  The types \<^verbatim>\<open>Message\<close> and \<^verbatim>\<open>SendMessageResponse\<close> are declared in \<^verbatim>\<open>@/lib/api\<close>, which is
  not among the sources; the records hold the fields this component reads and writes.
\<close>

record FrontendMessage =
  fm_id :: int
  fm_role :: string
  fm_content :: string
  fm_timestamp :: string
  fm_detected_services :: "(string \<times> bool) list option"

record SendMessageResponse =
  sm_conversation_id :: "int option"
  sm_requires_permissions :: bool
  sm_missing_permissions :: "string list option"
  sm_user_message :: FrontendMessage
  sm_assistant_message :: "FrontendMessage option"



section \<open>The home page and its OAuth callback handling (lume_frontend/src/app/page.tsx)\<close>

text \<open>
  \<^verbatim>\<open>User\<close> is declared in \<^verbatim>\<open>@/lib/api\<close> too; the fields are those the sidebar reads.
\<close>

record User =
  username :: string
  email :: string
  profile_picture :: "string option"
  permissions :: "(string \<times> bool) list"

datatype console_entry = ConsoleError string string | ConsoleLog string

text \<open>
  The state of \<^verbatim>\<open>Home\<close>: the six \<^verbatim>\<open>useState\<close> cells, and what the effect does outside them
  (console output, \<^verbatim>\<open>history.replaceState\<close>, calls of \<^verbatim>\<open>checkAuth\<close> started at once or
  scheduled with \<^verbatim>\<open>setTimeout\<close>).
\<close>

record HomeState =
  user :: "User option"
  loading :: bool
  currentConversationId :: "int option"
  showPermissionModal :: bool
  requiredPermissions :: "string list"
  oauthState :: string
  console :: "console_entry list"
  replaceState_calls :: nat
  checkAuth_calls :: nat
  checkAuth_timers :: nat

definition home_initial :: HomeState where
  "home_initial =
     \<lparr>user = None, loading = True, currentConversationId = None, showPermissionModal = False,
      requiredPermissions = [], oauthState = [], console = [], replaceState_calls = 0,
      checkAuth_calls = 0, checkAuth_timers = 0\<rparr>"

text \<open>\<^verbatim>\<open>URLSearchParams.get\<close>: the first value of the name, or null.\<close>

definition url_get :: "(string \<times> string) list \<Rightarrow> string \<Rightarrow> string option" where
  "url_get params name = map_of params name"

definition truthy_param :: "string option \<Rightarrow> bool" where
  "truthy_param v = (case v of None \<Rightarrow> False | Some s \<Rightarrow> s \<noteq> [])"

text \<open>The body of the mount effect, up to the \<^verbatim>\<open>await\<close> inside \<^verbatim>\<open>checkAuth\<close>.\<close>

definition mount_effect :: "(string \<times> string) list \<Rightarrow> HomeState \<Rightarrow> HomeState" where
  "mount_effect urlParams st0 =
     (let st1 = st0\<lparr>checkAuth_calls := Suc (checkAuth_calls st0)\<rparr>;
          authSuccess = url_get urlParams ''auth_success'';
          error = url_get urlParams ''error'';
          servicePermsGranted = url_get urlParams ''service_perms_granted'';
          code = url_get urlParams ''code'';
          state = url_get urlParams ''state'';
          st2 = (case error of
                   None \<Rightarrow> st1
                 | Some e \<Rightarrow>
                     if e \<noteq> [] then st1\<lparr>console := console st1 @ [ConsoleError ''OAuth error:'' e]\<rparr>
                     else st1);
          st3 = (if (truthy_param code \<and> truthy_param state) \<or> authSuccess = Some ''true''
                 then st2\<lparr>console := console st2 @
                                [ConsoleLog ''OAuth callback detected, clearing URL and checking auth...''],
                          replaceState_calls := Suc (replaceState_calls st2),
                          checkAuth_timers := Suc (checkAuth_timers st2)\<rparr>
                 else st2)
      in if servicePermsGranted = Some ''true''
         then st3\<lparr>console := console st3 @ [ConsoleLog ''Service permissions granted''],
                  showPermissionModal := False,
                  replaceState_calls := Suc (replaceState_calls st3),
                  checkAuth_timers := Suc (checkAuth_timers st3)\<rparr>
         else st3)"

text \<open>
  The continuation of \<^verbatim>\<open>checkAuth\<close> once \<^verbatim>\<open>apiClient.getUserInfo()\<close> has settled:
  \<open>Inl\<close> with the error when it threw, otherwise the \<^verbatim>\<open>authenticated\<close> flag and the
  \<^verbatim>\<open>user\<close> of the answer.
\<close>

definition checkAuth_settled :: "string + bool \<times> User option \<Rightarrow> HomeState \<Rightarrow> HomeState" where
  "checkAuth_settled answer st =
     (case answer of
        Inl e \<Rightarrow> st\<lparr>console := console st @ [ConsoleError ''Auth check failed:'' e], loading := False\<rparr>
      | Inr (authenticated, u) \<Rightarrow>
          (let st1 = st\<lparr>loading := False\<rparr> in
           if authenticated \<and> u \<noteq> None then st1\<lparr>user := u\<rparr> else st1))"

text \<open>What \<^verbatim>\<open>Home\<close> renders: a function of the \<^verbatim>\<open>useState\<close> cells only.\<close>

datatype screen =
    LoadingScreen
  | LoginScreen
  | MainScreen User "int option" "string list option"

definition render_home :: "HomeState \<Rightarrow> screen" where
  "render_home st =
     (if loading st then LoadingScreen
      else case user st of
             None \<Rightarrow> LoginScreen
           | Some u \<Rightarrow>
               MainScreen u (currentConversationId st)
                 (if showPermissionModal st then Some (requiredPermissions st) else None))"

definition react_state ::
  "HomeState \<Rightarrow> User option \<times> bool \<times> int option \<times> bool \<times> string list \<times> string" where
  "react_state st =
     (user st, loading st, currentConversationId st, showPermissionModal st,
      requiredPermissions st, oauthState st)"

section \<open>The permission modal (lume_frontend/src/components/PermissionModal.tsx)\<close>

record service_info =
  si_icon :: string
  si_name :: string
  si_color :: string
  si_description :: string

definition SERVICE_INFO :: "(string \<times> service_info) list" where
  "SERVICE_INFO =
     [(''email'', \<lparr>si_icon = ''Mail'', si_name = ''Gmail'', si_color = ''blue'',
                   si_description = ''Send, read, and manage your emails''\<rparr>),
      (''calendar'', \<lparr>si_icon = ''Calendar'', si_name = ''Google Calendar'', si_color = ''red'',
                      si_description = ''Create and manage calendar events''\<rparr>),
      (''tasks'', \<lparr>si_icon = ''CheckSquare'', si_name = ''Google Tasks'', si_color = ''yellow'',
                   si_description = ''Create and manage your tasks''\<rparr>),
      (''keep'', \<lparr>si_icon = ''StickyNote'', si_name = ''Google Keep'', si_color = ''green'',
                  si_description = ''Create and read notes''\<rparr>)]"

text \<open>
  \<^verbatim>\<open>SERVICE_INFO[permission]\<close> is a property read on an object literal: besides the four own
  keys it finds the properties every object inherits from \<^verbatim>\<open>Object.prototype\<close>. Those are
  truthy and have no \<^verbatim>\<open>icon\<close>, so rendering \<^verbatim>\<open><Icon />\<close> with them throws.
\<close>

definition object_prototype_keys :: "string list" where
  "object_prototype_keys =
     [''constructor'', ''__defineGetter__'', ''__defineSetter__'', ''hasOwnProperty'',
      ''__lookupGetter__'', ''__lookupSetter__'', ''isPrototypeOf'', ''propertyIsEnumerable'',
      ''toString'', ''valueOf'', ''__proto__'', ''toLocaleString'']"

datatype 'a property = Own 'a | Inherited | Missing

definition service_info_of :: "string \<Rightarrow> service_info property" where
  "service_info_of permission =
     (case map_of SERVICE_INFO permission of
        Some info \<Rightarrow> Own info
      | None \<Rightarrow> if permission \<in> set object_prototype_keys then Inherited else Missing)"

text \<open>
  The cards of the modal, one for each required permission that has an entry; \<open>None\<close> when the
  render throws.
\<close>

fun modal_cards :: "string list \<Rightarrow> (string \<times> service_info) list option" where
  "modal_cards [] = Some []"
| "modal_cards (permission # rest) =
     (case service_info_of permission of
        Missing \<Rightarrow> modal_cards rest
      | Inherited \<Rightarrow> None
      | Own info \<Rightarrow> map_option (\<lambda>cards. (permission, info) # cards) (modal_cards rest))"

section \<open>The connected-services status of the API client\<close>

text \<open>The field \<^verbatim>\<open>services_connected\<close> of \<^verbatim>\<open>AuthStatusResponse\<close>.\<close>

record services_connected =
  sc_gmail :: bool
  sc_calendar :: bool
  sc_tasks :: bool
  sc_keep :: bool
  sc_maps :: bool

text \<open>Its properties with their names, as \<^verbatim>\<open>Object.entries\<close> lists them.\<close>

definition services_connected_entries :: "services_connected \<Rightarrow> (string \<times> bool) list" where
  "services_connected_entries sc =
     [(''gmail'', sc_gmail sc), (''calendar'', sc_calendar sc), (''tasks'', sc_tasks sc),
      (''keep'', sc_keep sc), (''maps'', sc_maps sc)]"

text \<open>
  The four services named by the specification, and the test whether the suggestion generator
  treats a service name as one of its categories (it answers with a list of that category, not
  with one of the two generic lists).
\<close>

definition google_services :: "string set" where
  "google_services = {''gmail'', ''calendar'', ''tasks'', ''keep''}"

definition recognised_service :: "string \<Rightarrow> bool" where
  "recognised_service s =
     (generateSuggestions (Some s) None \<noteq> [''Tell me more'', ''Undo'', ''Help''] \<and>
      generateSuggestions (Some s) None \<noteq> [''Okay'', ''Another example'', ''Help''])"


section \<open>Auxiliary definitions and sample inputs\<close>

text \<open>The query parameters of a URL without its \<^verbatim>\<open>error\<close> parameter.\<close>

definition without_error :: "(string \<times> string) list \<Rightarrow> (string \<times> string) list" where
  "without_error params = filter (\<lambda>(k, v). k \<noteq> ''error'') params"


text \<open>The answer of the network to the first fetch of a call of \<open>makeRequest\<close>.\<close>

definition first_answer :: "HttpRequestConfig \<Rightarrow> world \<Rightarrow> fetch_outcome" where
  "first_answer cfg w = server w (length (fetch_log w)) (request_of cfg w)"

text \<open>
  A page in the browser with a given \<^verbatim>\<open>localStorage\<close> and network, no cookie, no refresh in
  flight and nothing fetched yet.
\<close>

definition browser :: "(string \<rightharpoonup> string) \<Rightarrow> (nat \<Rightarrow> fetch_request \<Rightarrow> fetch_outcome) \<Rightarrow> world" where
  "browser storage network =
     \<lparr>window_defined = True, localStorage = storage, cookies = [], location_href = None,
      baseURL = ''http://localhost:8000'', isRefreshing = False, refreshPromise = None,
      promises = Map.empty, promise_count = 0, server = network, fetch_log = [],
      getTaskStatus_calls = 0\<rparr>"

definition logged_in :: "string \<rightharpoonup> string" where
  "logged_in = [TOKEN_KEY \<mapsto> ''old.token.value'', REFRESH_TOKEN_KEY \<mapsto> ''refresh-1'']"


definition network_down :: "nat \<Rightarrow> fetch_request \<Rightarrow> fetch_outcome" where
  "network_down n req = NetworkError ''Failed to fetch''"

definition always_500 :: "nat \<Rightarrow> fetch_request \<Rightarrow> fetch_outcome" where
  "always_500 n req = Responded 500 (TextBody ''Internal Server Error'')"


definition task_pending :: "nat \<Rightarrow> fetch_request \<Rightarrow> fetch_outcome" where
  "task_pending n req = Responded 200 (JsonBody (JObj [(''task_id'', JStr ''t1''), (''status'', JStr ''pending'')]))"

definition task_completed_second :: "nat \<Rightarrow> fetch_request \<Rightarrow> fetch_outcome" where
  "task_completed_second n req =
     Responded 200 (JsonBody (JObj [(''task_id'', JStr ''t1''),
                                     (''status'', JStr (if n = 0 then ''running'' else ''completed''))]))"


text \<open>
  The state in which the request of a refresh is made: the flag is set, the pending promise
  of the refresh is stored.
\<close>

definition in_flight :: "world \<Rightarrow> world" where
  "in_flight w =
     w\<lparr>isRefreshing := True, promise_count := Suc (promise_count w),
       promises := (promises w)(promise_count w \<mapsto> Pending),
       refreshPromise := Some (promise_count w)\<rparr>"

text \<open>
  The first \<open>n\<close> polls from a state on each return a status without error that has a status
  field and is not terminal, and the progress callback returns each time.
\<close>

fun polls_pending ::
  "string \<Rightarrow> (js_value \<Rightarrow> js_error option) option \<Rightarrow> nat \<Rightarrow> world \<Rightarrow> bool" where
  "polls_pending taskId onProgress 0 w = True"
| "polls_pending taskId onProgress (Suc n) w =
     (case fst (getTaskStatus taskId w) of
        Returned response \<Rightarrow>
          (ar_error response = None \<or> ar_error response = Some [])
          \<and> (let status = (case ar_data response of None \<Rightarrow> Undefined | Some d \<Rightarrow> Val d) in
               (case onProgress of None \<Rightarrow> True | Some f \<Rightarrow> f status = None)
               \<and> (case status_of status of None \<Rightarrow> False | Some s \<Rightarrow> \<not> terminal s))
          \<and> polls_pending taskId onProgress n (snd (getTaskStatus taskId w))
      | _ \<Rightarrow> False)"

definition poll_twice :: poll_options where
  "poll_twice = \<lparr>opt_interval = None, opt_maxAttempts = Some 2, opt_onProgress = None\<rparr>"

section \<open>Lower-casing\<close>

lemma lower_char_idem: "lower_char (lower_char c) = lower_char c"
proof -
  have b: "of_char c < (256::nat)" by simp
  show ?thesis
    unfolding lower_char_def Let_def using b by auto
qed

lemma toLowerCase_idem: "toLowerCase (toLowerCase s) = toLowerCase s"
  by (simp add: toLowerCase_def lower_char_idem)

lemma toLowerCase_Nil_iff: "toLowerCase s = [] \<longleftrightarrow> s = []"
  by (simp add: toLowerCase_def)

section \<open>The suggestion generator: case, determinism, decision rule\<close>

text \<open>
  Claim C2. The keyword matcher is case-insensitive and deterministic: for every pair of
  service and action strings, \<open>generateSuggestions\<close> gives the same result on the inputs and
  on their lower-cased forms, and two calls with equal inputs give equal suggestion lists.
\<close>

theorem generateSuggestions_case_insensitive:
  "generateSuggestions (Some s) (Some a)
     = generateSuggestions (Some (toLowerCase s)) (Some (toLowerCase a))
   \<and> (s = s' \<and> a = a' \<longrightarrow>
        generateSuggestions (Some s) (Some a) = generateSuggestions (Some s') (Some a'))"
  by (simp add: generateSuggestions_def toLowerCase_idem toLowerCase_Nil_iff)

theorem generateSuggestions_case_insensitive_witness:
  "generateSuggestions (Some ''GMail'') (Some ''Send_Email'')
     = generateSuggestions (Some ''gmail'') (Some ''send_email'')
   \<and> generateSuggestions (Some ''GMail'') (Some ''Send_Email'')
     = [''Show inbox'', ''Draft a reply'', ''Search email from Alex'']"
proof -
  have lower: "toLowerCase ''GMail'' = ''gmail''" "toLowerCase ''Send_Email'' = ''send_email''"
    by code_simp+
  have result: "generateSuggestions (Some ''GMail'') (Some ''Send_Email'')
                  = [''Show inbox'', ''Draft a reply'', ''Search email from Alex'']"
    by code_simp
  from generateSuggestions_case_insensitive
         [of "''GMail''" "''Send_Email''" "''GMail''" "''Send_Email''"] lower result
  show ?thesis by simp
qed

text \<open>
  Claim C3, as stated: for every service string the result is the list of the first matching
  category, the fallback list \<open>[''Okay'', ''Another example'', ''Help'']\<close> when no category
  matches, and \<open>[''Tell me more'', ''Undo'', ''Help'']\<close> when the argument is absent. The empty
  string is a service string that matches no category, and the guard \<^verbatim>\<open>!service\<close> sends it
  to the list of the absent argument.
\<close>

theorem first_match_empty_string_counterexample:
  "generateSuggestions (Some []) None = [''Tell me more'', ''Undo'', ''Help'']
   \<and> first_match_spec (Some []) = [''Okay'', ''Another example'', ''Help'']"
  by code_simp

text \<open>
  Claim C3, amended: for every non-empty service string the result is the list of the first
  category (gmail, calendar, tasks, keep, maps, in that order) whose name equals the
  lower-cased input, and the fallback list when none matches; when the service argument is
  absent or the empty string the result is \<open>[''Tell me more'', ''Undo'', ''Help'']\<close>.
\<close>

theorem generateSuggestions_first_match:
  "(sv \<noteq> [] \<longrightarrow> generateSuggestions (Some sv) a = first_match_spec (Some sv))
   \<and> generateSuggestions None a = [''Tell me more'', ''Undo'', ''Help'']
   \<and> generateSuggestions (Some []) a = [''Tell me more'', ''Undo'', ''Help'']"
  by (simp add: generateSuggestions_def first_match_spec_def suggestion_categories_def Let_def)

theorem generateSuggestions_first_match_witness:
  "''Tasks'' \<noteq> [] \<and> generateSuggestions (Some ''Tasks'') None = first_match_spec (Some ''Tasks'')
   \<and> first_match_spec (Some ''Tasks'') = [''List tasks'', ''Add a task'', ''Mark task done'']"
proof -
  have spec: "first_match_spec (Some ''Tasks'') = [''List tasks'', ''Add a task'', ''Mark task done'']"
    by code_simp
  from generateSuggestions_first_match [of "''Tasks''" None] spec
  show ?thesis by simp
qed

section \<open>The service names\<close>

lemma recognised_service_iff:
  "recognised_service s \<longleftrightarrow> toLowerCase s \<in> {''gmail'', ''calendar'', ''tasks'', ''keep'', ''maps''}"
  by (auto simp: recognised_service_def generateSuggestions_def Let_def toLowerCase_def)

lemma modal_cards_keys:
  "modal_cards ps = Some cards \<Longrightarrow>
   map fst cards = filter (\<lambda>p. p \<in> {''email'', ''calendar'', ''tasks'', ''keep''}) ps"
proof (induction ps arbitrary: cards)
  case Nil
  then show ?case by simp
next
  case (Cons p ps)
  then show ?case
    by (auto simp: service_info_of_def SERVICE_INFO_def split: property.splits if_splits)
qed

text \<open>
  Claim C1, as stated: every service name of the suggestion logic, of the permission modal and
  of the connected-services status lies in the set of gmail, calendar, tasks and keep. The
  suggestion generator has a category maps, the status has a field maps, and the modal offers
  Gmail under the key email and shows no card for the key gmail.
\<close>

theorem service_set_counterexample:
  "recognised_service ''maps'' \<and> ''maps'' \<notin> google_services
   \<and> ''maps'' \<in> fst ` set (services_connected_entries
        \<lparr>sc_gmail = True, sc_calendar = False, sc_tasks = False, sc_keep = False, sc_maps = False\<rparr>)
   \<and> map_option (map fst) (modal_cards [''email'', ''gmail'']) = Some [''email'']
   \<and> ''email'' \<notin> google_services"
proof -
  have a: "recognised_service ''maps''"
    by code_simp
  have b: "map_option (map fst) (modal_cards [''email'', ''gmail'']) = Some [''email'']"
    by code_simp
  show ?thesis
    using a b by (simp add: google_services_def services_connected_entries_def)
qed

text \<open>
  Claim C1, amended: the suggestion generator recognises exactly the service names whose
  lower-cased form is gmail, calendar, tasks, keep or maps; the connected-services status
  reports exactly the names gmail, calendar, tasks, keep and maps; and the permission modal,
  when it renders, shows cards for exactly those required permissions that are among email,
  calendar, tasks and keep, in the order required.
\<close>

theorem service_names:
  "(recognised_service s \<longleftrightarrow> toLowerCase s \<in> {''gmail'', ''calendar'', ''tasks'', ''keep'', ''maps''})
   \<and> fst ` set (services_connected_entries sc) = {''gmail'', ''calendar'', ''tasks'', ''keep'', ''maps''}
   \<and> (modal_cards required = Some cards \<longrightarrow>
        map fst cards = filter (\<lambda>p. p \<in> {''email'', ''calendar'', ''tasks'', ''keep''}) required)"
  using recognised_service_iff modal_cards_keys
  by (auto simp: services_connected_entries_def)

theorem service_names_witness:
  "modal_cards [''keep'', ''gmail'', ''email'']
     = Some [(''keep'', \<lparr>si_icon = ''StickyNote'', si_name = ''Google Keep'', si_color = ''green'',
                          si_description = ''Create and read notes''\<rparr>),
             (''email'', \<lparr>si_icon = ''Mail'', si_name = ''Gmail'', si_color = ''blue'',
                           si_description = ''Send, read, and manage your emails''\<rparr>)]
   \<and> map fst [(''keep'', \<lparr>si_icon = ''StickyNote'', si_name = ''Google Keep'', si_color = ''green'',
                            si_description = ''Create and read notes''\<rparr>),
               (''email'', \<lparr>si_icon = ''Mail'', si_name = ''Gmail'', si_color = ''blue'',
                             si_description = ''Send, read, and manage your emails''\<rparr>)]
       = filter (\<lambda>p. p \<in> {''email'', ''calendar'', ''tasks'', ''keep''}) [''keep'', ''gmail'', ''email'']"
proof -
  have cards: "modal_cards [''keep'', ''gmail'', ''email'']
     = Some [(''keep'', \<lparr>si_icon = ''StickyNote'', si_name = ''Google Keep'', si_color = ''green'',
                          si_description = ''Create and read notes''\<rparr>),
             (''email'', \<lparr>si_icon = ''Mail'', si_name = ''Gmail'', si_color = ''blue'',
                           si_description = ''Send, read, and manage your emails''\<rparr>)]"
    by code_simp
  from service_names [where required = "[''keep'', ''gmail'', ''email'']"] cards
  show ?thesis by blast
qed

section \<open>The message lists\<close>









section \<open>The OAuth callback\<close>

lemma url_get_without_error: "k \<noteq> ''error'' \<Longrightarrow> url_get (without_error ps) k = url_get ps k"
  by (induction ps) (auto simp: url_get_def without_error_def)

lemma url_get_error_without_error: "url_get (without_error ps) ''error'' = None"
  by (induction ps) (auto simp: url_get_def without_error_def)

lemma react_state_mount:
  "react_state (mount_effect ps st) = react_state (mount_effect (without_error ps) st)"
  by (simp add: mount_effect_def Let_def react_state_def url_get_without_error
      url_get_error_without_error split: option.splits)

lemma render_react: "react_state a = react_state b \<Longrightarrow> render_home a = render_home b"
  by (auto simp: react_state_def render_home_def split: option.splits)

text \<open>
  Claim C6, as stated: a URL with an \<^verbatim>\<open>error\<close> parameter produces error output the user can
  see, not an unchanged page. On the freshly mounted page the effect leaves every state cell,
  and so the rendered screen, as it was; its only trace is an entry in the browser console.
\<close>

theorem oauth_error_counterexample:
  "react_state (mount_effect [(''error'', ''invalid_state'')] home_initial) = react_state home_initial
   \<and> render_home (mount_effect [(''error'', ''invalid_state'')] home_initial) = render_home home_initial
   \<and> console (mount_effect [(''error'', ''invalid_state'')] home_initial)
       = [ConsoleError ''OAuth error:'' ''invalid_state'']"
  by (simp add: mount_effect_def home_initial_def react_state_def render_home_def url_get_def
      truthy_param_def)

text \<open>
  Claim C6, amended: when the callback URL carries a non-empty \<^verbatim>\<open>error\<close> parameter, the error
  is written to the browser console with \<^verbatim>\<open>console.error\<close>; the state of the page and what it
  renders, at once and after the authentication check has settled, are the same as for the URL
  without that parameter.
\<close>

theorem oauth_error_console_only:
  "react_state (mount_effect urlParams st) = react_state (mount_effect (without_error urlParams) st)
   \<and> render_home (mount_effect urlParams st) = render_home (mount_effect (without_error urlParams) st)
   \<and> render_home (checkAuth_settled answer (mount_effect urlParams st))
       = render_home (checkAuth_settled answer (mount_effect (without_error urlParams) st))
   \<and> (url_get urlParams ''error'' = Some e \<and> e \<noteq> [] \<longrightarrow>
        ConsoleError ''OAuth error:'' e \<in> set (console (mount_effect urlParams st)))"
proof -
  have r: "react_state (mount_effect urlParams st)
             = react_state (mount_effect (without_error urlParams) st)"
    by (rule react_state_mount)
  have s: "react_state (checkAuth_settled answer (mount_effect urlParams st))
             = react_state (checkAuth_settled answer (mount_effect (without_error urlParams) st))"
    using r by (auto simp: checkAuth_settled_def react_state_def Let_def split: sum.splits)
  have c: "url_get urlParams ''error'' = Some e \<and> e \<noteq> [] \<longrightarrow>
             ConsoleError ''OAuth error:'' e \<in> set (console (mount_effect urlParams st))"
    by (simp add: mount_effect_def Let_def)
  from r s c render_react show ?thesis by blast
qed

theorem oauth_error_console_only_witness:
  "url_get [(''error'', ''access_denied''), (''state'', ''abc'')] ''error'' = Some ''access_denied''
   \<and> ''access_denied'' \<noteq> []
   \<and> ConsoleError ''OAuth error:'' ''access_denied''
       \<in> set (console (mount_effect [(''error'', ''access_denied''), (''state'', ''abc'')] home_initial))
   \<and> render_home (checkAuth_settled (Inr (False, None))
        (mount_effect [(''error'', ''access_denied''), (''state'', ''abc'')] home_initial)) = LoginScreen"
proof -
  have g: "url_get [(''error'', ''access_denied''), (''state'', ''abc'')] ''error'' = Some ''access_denied''"
    by (simp add: url_get_def)
  have w: "without_error [(''error'', ''access_denied''), (''state'', ''abc'')] = [(''state'', ''abc'')]"
    by (simp add: without_error_def)
  have l: "render_home (checkAuth_settled (Inr (False, None)) (mount_effect [(''state'', ''abc'')] home_initial))
             = LoginScreen"
    by (simp add: mount_effect_def home_initial_def render_home_def checkAuth_settled_def url_get_def
        truthy_param_def)
  from oauth_error_console_only
         [of "[(''error'', ''access_denied''), (''state'', ''abc'')]" home_initial "Inr (False, None)"
             "''access_denied''"] g w l
  show ?thesis by simp
qed

section \<open>The fetches of one request\<close>

lemma fetch_simps:
  "fst (fetch req w) = server w (length (fetch_log w)) req"
  "fetch_log (snd (fetch req w)) = fetch_log w @ [req]"
  "getTaskStatus_calls (snd (fetch req w)) = getTaskStatus_calls w"
  "isRefreshing (snd (fetch req w)) = isRefreshing w"
  "refreshPromise (snd (fetch req w)) = refreshPromise w"
  "promises (snd (fetch req w)) = promises w"
  by (simp_all add: fetch_def)

lemma token_ops_log:
  "fetch_log (setToken t w) = fetch_log w"
  "fetch_log (setRefreshToken t w) = fetch_log w"
  "fetch_log (clearTokens w) = fetch_log w"
  "fetch_log (handleAuthFailure w) = fetch_log w"
  "fetch_log (settle_refresh p s w) = fetch_log w"
  "getTaskStatus_calls (setToken t w) = getTaskStatus_calls w"
  "getTaskStatus_calls (setRefreshToken t w) = getTaskStatus_calls w"
  "getTaskStatus_calls (clearTokens w) = getTaskStatus_calls w"
  "getTaskStatus_calls (handleAuthFailure w) = getTaskStatus_calls w"
  "getTaskStatus_calls (settle_refresh p s w) = getTaskStatus_calls w"
  by (simp_all add: setToken_def setRefreshToken_def clearTokens_def handleAuthFailure_def
      settle_refresh_def Let_def)

lemma makeRequest_single:
  assumes "cfg_retry cfg \<or> (\<forall>b. first_answer cfg w \<noteq> Responded 401 b)"
  shows "fetch_log (snd (makeRequest cfg w)) = fetch_log w @ [request_of cfg w]
         \<and> getTaskStatus_calls (snd (makeRequest cfg w)) = getTaskStatus_calls w"
  using assms
  by (subst (1 2) makeRequest.simps)
     (auto simp: Let_def fetch_simps first_answer_def split: fetch_outcome.splits sum.splits)

lemma refreshToken_in_flight: "isRefreshing w \<Longrightarrow> refreshToken w = (refreshPromise w, w)"
  by (subst refreshToken.simps) simp

lemma makeRequest_in_flight:
  assumes "isRefreshing w" "refreshPromise w = Some p" "promises w p = Some Pending"
  shows "fetch_log (snd (makeRequest cfg w)) = fetch_log w @ [request_of cfg w]
         \<and> getTaskStatus_calls (snd (makeRequest cfg w)) = getTaskStatus_calls w"
  using assms
  by (subst (1 2) makeRequest.simps)
     (auto simp: Let_def fetch_simps refreshToken_in_flight await_promise_def
           split: fetch_outcome.splits sum.splits)

lemma refreshToken_log:
  "\<exists>xs. fetch_log (snd (refreshToken w)) = fetch_log w @ xs \<and> length xs \<le> 1
        \<and> getTaskStatus_calls (snd (refreshToken w)) = getTaskStatus_calls w"
proof (cases "isRefreshing w")
  case True
  then show ?thesis by (simp add: refreshToken_in_flight)
next
  case False
  define w3 where "w3 = (\<lambda>rt::string. w\<lparr>isRefreshing := True, promise_count := Suc (promise_count w),
      promises := (promises w)(promise_count w \<mapsto> Pending), refreshPromise := Some (promise_count w)\<rparr>)"
  have inner: "fetch_log (snd (makeRequest cfg (w3 rt))) = fetch_log w @ [request_of cfg (w3 rt)]
         \<and> getTaskStatus_calls (snd (makeRequest cfg (w3 rt))) = getTaskStatus_calls w" for cfg rt
    using makeRequest_in_flight [of "w3 rt" "promise_count w" cfg] by (simp add: w3_def)
  show ?thesis
    using False inner
    by (subst (1 2) refreshToken.simps)
       (auto simp: Let_def token_ops_log w3_def finish_refresh_def split: option.splits outcome.splits)
qed

lemma makeRequest_log:
  "\<exists>xs. fetch_log (snd (makeRequest cfg w)) = fetch_log w @ request_of cfg w # xs \<and> length xs \<le> 2
        \<and> getTaskStatus_calls (snd (makeRequest cfg w)) = getTaskStatus_calls w"
proof (cases "cfg_retry cfg \<or> (\<forall>b. first_answer cfg w \<noteq> Responded 401 b)")
  case True
  then show ?thesis using makeRequest_single [of cfg w] by simp
next
  case False
  then obtain b where nr: "\<not> cfg_retry cfg" and fa: "first_answer cfg w = Responded 401 b"
    by blast
  define w1 where "w1 = snd (fetch (request_of cfg w) w)"
  have l1: "fetch_log w1 = fetch_log w @ [request_of cfg w]"
    and c1: "getTaskStatus_calls w1 = getTaskStatus_calls w"
    by (simp_all add: w1_def fetch_simps)
  obtain xs where r: "fetch_log (snd (refreshToken w1)) = fetch_log w1 @ xs" "length xs \<le> 1"
      "getTaskStatus_calls (snd (refreshToken w1)) = getTaskStatus_calls w1"
    using refreshToken_log [of w1] by blast
  have retry: "fetch_log (snd (makeRequest cfg' (snd (refreshToken w1))))
                 = fetch_log (snd (refreshToken w1)) @ [request_of cfg' (snd (refreshToken w1))]
               \<and> getTaskStatus_calls (snd (makeRequest cfg' (snd (refreshToken w1))))
                 = getTaskStatus_calls (snd (refreshToken w1))"
    if "cfg_retry cfg'" for cfg'
    using that makeRequest_single [of cfg' "snd (refreshToken w1)"] by simp
  show ?thesis
    using nr fa l1 c1 r retry
    by (subst (1 2) makeRequest.simps)
       (auto simp: Let_def fetch_simps first_answer_def w1_def token_ops_log
             split: sum.splits promise_state.splits)
qed






section \<open>The refresh promise\<close>

text \<open>
  Claim C7 says that after the refresh has settled \<^verbatim>\<open>isRefreshing\<close> is false and
  \<^verbatim>\<open>refreshPromise\<close> is null again. With no refresh token stored, the refresh settles
  (rejected, without any request) and \<^verbatim>\<open>isRefreshing\<close> is false, and \<^verbatim>\<open>refreshPromise\<close> holds
  the rejected promise: the assignment around the asynchronous function runs after its
  \<^verbatim>\<open>finally\<close> block.
\<close>

theorem refreshToken_stale_promise:
  "isRefreshing (snd (refreshToken (browser Map.empty network_down))) = False
   \<and> fst (refreshToken (browser Map.empty network_down)) = Some 0
   \<and> promises (snd (refreshToken (browser Map.empty network_down))) 0
       = Some (Rejected (plain_error ''No refresh token available''))
   \<and> refreshPromise (snd (refreshToken (browser Map.empty network_down))) = Some 0
   \<and> fetch_log (snd (refreshToken (browser Map.empty network_down))) = []"
  by code_simp

text \<open>
  The rest of the claim holds: a call during a refresh in flight returns the stored promise
  and fetches nothing (\<open>refreshToken_in_flight\<close>), and a refresh that made its request and
  settled leaves the flag false and the stored promise null.
\<close>

lemma refreshToken_no_token:
  assumes "\<not> isRefreshing w" "getRefreshToken w = None \<or> getRefreshToken w = Some []"
  shows "refreshToken w =
           (Some (promise_count w),
            w\<lparr>isRefreshing := False, promise_count := Suc (promise_count w),
              promises := (promises w)(promise_count w \<mapsto> Rejected (plain_error ''No refresh token available'')),
              refreshPromise := Some (promise_count w)\<rparr>)"
  using assms
  by (subst refreshToken.simps)
     (auto simp: Let_def getRefreshToken_def settle_refresh_def split: option.splits)

lemma makeRequest_in_flight_world:
  assumes "isRefreshing w" "refreshPromise w = Some p" "promises w p = Some Pending"
  shows "snd (makeRequest cfg w) = w\<lparr>fetch_log := fetch_log w @ [request_of cfg w]\<rparr>"
  using assms
  by (subst makeRequest.simps)
     (auto simp: Let_def fetch_def refreshToken_in_flight await_promise_def
           split: fetch_outcome.splits sum.splits)

lemma refreshToken_with_token:
  assumes "\<not> isRefreshing w" "getRefreshToken w = Some rt" "rt \<noteq> []"
  shows "refreshToken w =
           finish_refresh (promise_count w)
             (makeRequest (refresh_config (in_flight w) rt) (in_flight w))"
proof -
  have g: "getRefreshToken (w\<lparr>isRefreshing := True, promise_count := Suc (promise_count w)\<rparr>) = Some rt"
    using assms(2) by (simp add: getRefreshToken_def split: if_splits)
  show ?thesis
    using assms(1,3) g
    by (subst refreshToken.simps) (simp add: Let_def in_flight_def)
qed

lemma refreshToken_settles_after_request:
  assumes "\<not> isRefreshing w" "getRefreshToken w = Some rt" "rt \<noteq> []"
    and "await_promise (snd (refreshToken w)) (fst (refreshToken w)) \<noteq> Pending"
  shows "\<not> isRefreshing (snd (refreshToken w)) \<and> refreshPromise (snd (refreshToken w)) = None"
proof -
  let ?requested = "makeRequest (refresh_config (in_flight w) rt) (in_flight w)"
  have w4: "snd ?requested
              = (in_flight w)\<lparr>fetch_log := fetch_log (in_flight w) @ [request_of (refresh_config (in_flight w) rt) (in_flight w)]\<rparr>"
    by (rule makeRequest_in_flight_world [where p = "promise_count w"]) (simp_all add: in_flight_def)
  have eq: "refreshToken w = finish_refresh (promise_count w) ?requested"
    using assms(1-3) by (rule refreshToken_with_token)
  show ?thesis
  proof (cases "fst ?requested")
    case Hangs
    have "promises (snd ?requested) (promise_count w) = Some Pending"
      by (subst w4) (simp add: in_flight_def)
    with Hangs have "await_promise (snd (refreshToken w)) (fst (refreshToken w)) = Pending"
      by (simp add: eq finish_refresh_def await_promise_def Let_def)
    with assms(4) show ?thesis by simp
  next
    case (Threw e)
    then show ?thesis by (simp add: eq finish_refresh_def settle_refresh_def Let_def)
  next
    case (Returned response)
    then show ?thesis
      by (simp add: eq finish_refresh_def settle_refresh_def Let_def split: option.splits)
  qed
qed

section \<open>Logout\<close>




section \<open>Polling\<close>

lemma getTaskStatus_counts:
  "getTaskStatus_calls (snd (getTaskStatus taskId w)) = Suc (getTaskStatus_calls w)"
proof -
  have "getTaskStatus_calls (snd (makeRequest cfg (w\<lparr>getTaskStatus_calls := Suc (getTaskStatus_calls w)\<rparr>)))
          = Suc (getTaskStatus_calls w)" for cfg
    using makeRequest_log [of cfg "w\<lparr>getTaskStatus_calls := Suc (getTaskStatus_calls w)\<rparr>"] by auto
  then show ?thesis
    by (auto simp: getTaskStatus_def Let_def split: outcome.splits)
qed

lemma poll_loop_calls:
  "int (getTaskStatus_calls (snd (poll_loop taskId maxAttempts onProgress attempt w)))
     \<le> int (getTaskStatus_calls w) + max 0 (maxAttempts - attempt)"
proof (induction "nat (maxAttempts - attempt)" arbitrary: attempt w)
  case 0
  then have "\<not> attempt < maxAttempts" by simp
  then show ?case by (subst poll_loop.simps) simp
next
  case (Suc n)
  then have lt: "attempt < maxAttempts" and n: "n = nat (maxAttempts - (attempt + 1))"
    by simp_all
  let ?w1 = "snd (getTaskStatus taskId w)"
  have c: "getTaskStatus_calls ?w1 = Suc (getTaskStatus_calls w)"
    by (rule getTaskStatus_counts)
  have ih: "int (getTaskStatus_calls (snd (poll_loop taskId maxAttempts onProgress (attempt + 1) ?w1)))
              \<le> int (getTaskStatus_calls ?w1) + max 0 (maxAttempts - (attempt + 1))"
    using Suc.hyps(1) [OF n] .
  have step: "int (getTaskStatus_calls ?w1) + max 0 (maxAttempts - (attempt + 1))
              \<le> int (getTaskStatus_calls w) + max 0 (maxAttempts - attempt)"
    using lt c by simp
  have here: "int (getTaskStatus_calls ?w1) \<le> int (getTaskStatus_calls w) + max 0 (maxAttempts - attempt)"
    using lt c by simp
  show ?case
    using lt ih step here
    by (subst poll_loop.simps)
       (auto simp: Let_def split: outcome.splits option.splits)
qed

lemma poll_loop_returns_terminal:
  "fst (poll_loop taskId maxAttempts onProgress attempt w) = Returned status \<Longrightarrow>
   \<exists>s. status_of status = Some s \<and> terminal s"
proof (induction taskId maxAttempts onProgress attempt w rule: poll_loop.induct)
  case (1 taskId maxAttempts onProgress attempt w)
  from "1.prems" show ?case
    apply (subst (asm) poll_loop.simps)
    apply (auto simp: Let_def split: outcome.splits option.splits if_splits dest: "1.IH")
    done
qed

lemma poll_loop_timeout:
  "polls_pending taskId onProgress n w \<Longrightarrow> int n = max 0 (maxAttempts - attempt) \<Longrightarrow>
   fst (poll_loop taskId maxAttempts onProgress attempt w)
     = Threw (plain_error ''Task polling timeout - maximum attempts reached'')"
proof (induction n arbitrary: attempt w)
  case 0
  then have "\<not> attempt < maxAttempts" by simp
  then show ?case by (subst poll_loop.simps) simp
next
  case (Suc n)
  from Suc.prems(2) have lt: "attempt < maxAttempts" and n: "int n = max 0 (maxAttempts - (attempt + 1))"
    by auto
  from Suc.prems(1) obtain response where
    r: "fst (getTaskStatus taskId w) = Returned response"
    and e: "ar_error response = None \<or> ar_error response = Some []"
    and cb: "(case onProgress of None \<Rightarrow> True
              | Some f \<Rightarrow> f (case ar_data response of None \<Rightarrow> Undefined | Some d \<Rightarrow> Val d) = None)"
    and st: "(case status_of (case ar_data response of None \<Rightarrow> Undefined | Some d \<Rightarrow> Val d) of
                None \<Rightarrow> False | Some s \<Rightarrow> \<not> terminal s)"
    and rest: "polls_pending taskId onProgress n (snd (getTaskStatus taskId w))"
    by (auto simp: Let_def split: outcome.splits)
  from Suc.IH [OF rest n]
  have ih: "fst (poll_loop taskId maxAttempts onProgress (attempt + 1) (snd (getTaskStatus taskId w)))
              = Threw (plain_error ''Task polling timeout - maximum attempts reached'')" .
  show ?case
    using lt r e cb st ih
    by (subst poll_loop.simps) (auto simp: Let_def split: option.splits)
qed

lemma poll_loop_error:
  "attempt < maxAttempts \<Longrightarrow> fst (getTaskStatus taskId w) = Returned response \<Longrightarrow>
   ar_error response = Some e \<Longrightarrow> e \<noteq> [] \<Longrightarrow>
   poll_loop taskId maxAttempts onProgress attempt w
     = (Threw (plain_error e), snd (getTaskStatus taskId w))"
  by (subst poll_loop.simps) (simp add: Let_def)


text \<open>
  Counted in fetches instead of polls: one poll issues at most the three fetches of
  \<open>makeRequest\<close>.
\<close>

lemma getTaskStatus_fetches:
  "length (fetch_log (snd (getTaskStatus taskId w))) \<le> length (fetch_log w) + 3"
proof -
  let ?w = "w\<lparr>getTaskStatus_calls := Suc (getTaskStatus_calls w)\<rparr>"
  have "length (fetch_log (snd (makeRequest cfg ?w))) \<le> length (fetch_log w) + 3" for cfg
    using makeRequest_log [of cfg ?w] by auto
  then show ?thesis
    by (auto simp: getTaskStatus_def Let_def split: outcome.splits)
qed

lemma poll_loop_fetches:
  "int (length (fetch_log (snd (poll_loop taskId maxAttempts onProgress attempt w))))
     \<le> int (length (fetch_log w)) + 3 * max 0 (maxAttempts - attempt)"
proof (induction "nat (maxAttempts - attempt)" arbitrary: attempt w)
  case 0
  then have "\<not> attempt < maxAttempts" by simp
  then show ?case by (subst poll_loop.simps) simp
next
  case (Suc n)
  then have lt: "attempt < maxAttempts" and n: "n = nat (maxAttempts - (attempt + 1))"
    by simp_all
  let ?w1 = "snd (getTaskStatus taskId w)"
  have c: "length (fetch_log ?w1) \<le> length (fetch_log w) + 3"
    by (rule getTaskStatus_fetches)
  have ih: "int (length (fetch_log (snd (poll_loop taskId maxAttempts onProgress (attempt + 1) ?w1))))
              \<le> int (length (fetch_log ?w1)) + 3 * max 0 (maxAttempts - (attempt + 1))"
    using Suc.hyps(1) [OF n] .
  have step: "int (length (fetch_log ?w1)) + 3 * max 0 (maxAttempts - (attempt + 1))
              \<le> int (length (fetch_log w)) + 3 * max 0 (maxAttempts - attempt)"
    using lt c by simp
  have here: "int (length (fetch_log ?w1)) \<le> int (length (fetch_log w)) + 3 * max 0 (maxAttempts - attempt)"
    using lt c by simp
  show ?case
    using lt ih step here
    by (subst poll_loop.simps)
       (auto simp: Let_def split: outcome.splits option.splits)
qed

text \<open>
  Claim C9. \<open>pollTaskStatus\<close> calls \<^verbatim>\<open>api.getTaskStatus\<close> at most \<^verbatim>\<open>maxAttempts\<close> times
  (30 when the option is left out), and a status it returns has the status field
  \<open>completed\<close> or \<open>failed\<close>. When each of the \<^verbatim>\<open>maxAttempts\<close> polls returns a status that is
  not terminal (and the progress callback returns), it throws the timeout error. At any
  iteration, a response that carries an error makes it throw that error at once, with no
  further poll. A request is one call of \<^verbatim>\<open>api.getTaskStatus\<close>; the fetches such a call issues
  are those of \<open>makeRequest\<close>.
\<close>

theorem pollTaskStatus_bounded:
  "int (getTaskStatus_calls (snd (pollTaskStatus taskId options w)))
     \<le> int (getTaskStatus_calls w) + max 0 (maxAttempts_of options)
   \<and> maxAttempts_of \<lparr>opt_interval = interval, opt_maxAttempts = None, opt_onProgress = onProgress\<rparr> = 30
   \<and> (fst (pollTaskStatus taskId options w) = Returned status \<longrightarrow>
        status_of status = Some (Val (JStr ''completed''))
        \<or> status_of status = Some (Val (JStr ''failed'')))
   \<and> (polls_pending taskId (opt_onProgress options) n w \<and> int n = max 0 (maxAttempts_of options) \<longrightarrow>
        fst (pollTaskStatus taskId options w)
          = Threw (plain_error ''Task polling timeout - maximum attempts reached''))
   \<and> (attempt < maxAttempts \<and> fst (getTaskStatus taskId w) = Returned response
        \<and> ar_error response = Some e \<and> e \<noteq> [] \<longrightarrow>
        poll_loop taskId maxAttempts onProgress attempt w
          = (Threw (plain_error e), snd (getTaskStatus taskId w)))"
proof -
  have a: "int (getTaskStatus_calls (snd (pollTaskStatus taskId options w)))
             \<le> int (getTaskStatus_calls w) + max 0 (maxAttempts_of options)"
    using poll_loop_calls [of taskId "maxAttempts_of options" "opt_onProgress options" 0 w]
    by (simp add: pollTaskStatus_def)
  have b: "maxAttempts_of \<lparr>opt_interval = interval, opt_maxAttempts = None, opt_onProgress = onProgress\<rparr> = 30"
    by (simp add: maxAttempts_of_def)
  have c: "fst (pollTaskStatus taskId options w) = Returned status \<longrightarrow>
        status_of status = Some (Val (JStr ''completed''))
        \<or> status_of status = Some (Val (JStr ''failed''))"
    using poll_loop_returns_terminal [of taskId "maxAttempts_of options" "opt_onProgress options" 0 w status]
    by (auto simp: pollTaskStatus_def terminal_def)
  have d: "polls_pending taskId (opt_onProgress options) n w \<and> int n = max 0 (maxAttempts_of options) \<longrightarrow>
        fst (pollTaskStatus taskId options w)
          = Threw (plain_error ''Task polling timeout - maximum attempts reached'')"
    using poll_loop_timeout [of taskId "opt_onProgress options" n w "maxAttempts_of options" 0]
    by (simp add: pollTaskStatus_def)
  have e: "attempt < maxAttempts \<and> fst (getTaskStatus taskId w) = Returned response
        \<and> ar_error response = Some e \<and> e \<noteq> [] \<longrightarrow>
        poll_loop taskId maxAttempts onProgress attempt w
          = (Threw (plain_error e), snd (getTaskStatus taskId w))"
    using poll_loop_error [of attempt maxAttempts taskId w response e onProgress] by blast
  from a b c d e show ?thesis by blast
qed

theorem pollTaskStatus_bounded_witness:
  "fst (pollTaskStatus ''t1'' poll_twice (browser logged_in task_completed_second))
     = Returned (Val (JObj [(''task_id'', JStr ''t1''), (''status'', JStr ''completed'')]))
   \<and> status_of (Val (JObj [(''task_id'', JStr ''t1''), (''status'', JStr ''completed'')]))
     = Some (Val (JStr ''completed''))
   \<and> polls_pending ''t1'' None 2 (browser logged_in task_pending)
   \<and> fst (pollTaskStatus ''t1'' poll_twice (browser logged_in task_pending))
     = Threw (plain_error ''Task polling timeout - maximum attempts reached'')
   \<and> getTaskStatus_calls (snd (pollTaskStatus ''t1'' poll_twice (browser logged_in task_pending))) \<le> 2
   \<and> ar_error (failure_response (createHttpError (Some 500) None) ''Failed to get task status'')
     = Some ''HTTP 500 Error''
   \<and> fst (poll_loop ''t1'' 30 None 0 (browser logged_in always_500)) = Threw (plain_error ''HTTP 500 Error'')
   \<and> getTaskStatus_calls (snd (poll_loop ''t1'' 30 None 0 (browser logged_in always_500))) = 1"
proof -
  let ?done = "Val (JObj [(''task_id'', JStr ''t1''), (''status'', JStr ''completed'')])"
  have ret: "fst (pollTaskStatus ''t1'' poll_twice (browser logged_in task_completed_second)) = Returned ?done"
    by code_simp
  have pend: "polls_pending ''t1'' (opt_onProgress poll_twice) 2 (browser logged_in task_pending)"
    by code_simp
  have two: "maxAttempts_of poll_twice = 2" "opt_onProgress poll_twice = None"
    by (simp_all add: maxAttempts_of_def poll_twice_def)
  have zero: "getTaskStatus_calls (browser logged_in task_pending) = 0"
    by (simp add: browser_def)
  have resp: "fst (getTaskStatus ''t1'' (browser logged_in always_500))
                = Returned (failure_response (createHttpError (Some 500) None) ''Failed to get task status'')"
    by code_simp
  have err: "ar_error (failure_response (createHttpError (Some 500) None) ''Failed to get task status'')
               = Some ''HTTP 500 Error''"
    by code_simp
  have once: "getTaskStatus_calls (snd (getTaskStatus ''t1'' (browser logged_in always_500))) = 1"
    by code_simp
  from pollTaskStatus_bounded [where taskId = "''t1''" and options = poll_twice
      and w = "browser logged_in task_completed_second" and status = ?done] ret
  have t1: "status_of ?done = Some (Val (JStr ''completed''))"
    by (simp add: status_of_def get_property_def)
  from pollTaskStatus_bounded [where taskId = "''t1''" and options = poll_twice
      and w = "browser logged_in task_pending" and n = 2] pend two zero
  have t2: "fst (pollTaskStatus ''t1'' poll_twice (browser logged_in task_pending))
              = Threw (plain_error ''Task polling timeout - maximum attempts reached'')
            \<and> getTaskStatus_calls (snd (pollTaskStatus ''t1'' poll_twice (browser logged_in task_pending))) \<le> 2"
    by simp
  from pollTaskStatus_bounded [where taskId = "''t1''" and w = "browser logged_in always_500"
      and attempt = 0 and maxAttempts = 30 and onProgress = None and e = "''HTTP 500 Error''"
      and response = "failure_response (createHttpError (Some 500) None) ''Failed to get task status''"]
    resp err once
  have t3: "fst (poll_loop ''t1'' 30 None 0 (browser logged_in always_500)) = Threw (plain_error ''HTTP 500 Error'')
            \<and> getTaskStatus_calls (snd (poll_loop ''t1'' 30 None 0 (browser logged_in always_500))) = 1"
    by simp
  from ret t1 pend two t2 err t3 show ?thesis by simp
qed

section \<open>Token expiry\<close>

lemma atob_undefined: "atob ''undefined'' = None"
  by code_simp

lemma isTokenExpired_unparsable:
  "atob (token_segment token) = None
   \<or> (\<exists>text. atob (token_segment token) = Some text \<and>
         (JSON_parse text = None \<or> JSON_parse text = Some JNull)) \<Longrightarrow>
   isTokenExpired JSON_parse ToNumber currentTime token"
  by (auto simp: isTokenExpired_def get_property_def)

lemma isTokenExpired_one_segment:
  assumes "CHR ''.'' \<notin> set token"
  shows "isTokenExpired JSON_parse ToNumber currentTime token"
proof -
  from assms have "split_on CHR ''.'' token = [token]"
    by (induction token) auto
  then show ?thesis
    by (simp add: isTokenExpired_def token_segment_def atob_undefined)
qed

lemma isTokenExpired_numeric_exp:
  "atob (token_segment token) = Some text \<Longrightarrow> JSON_parse text = Some (JObj props) \<Longrightarrow>
   map_of props ''exp'' = Some (JNum expiry) \<Longrightarrow>
   isTokenExpired JSON_parse ToNumber currentTime token \<longleftrightarrow> expiry < currentTime"
  by (simp add: isTokenExpired_def get_property_def less_than_number_def)

text \<open>
  Claim C10 says that \<open>isTokenExpired\<close> fails closed: it returns true for every string that
  is not a JWT whose payload is JSON with an \<open>exp\<close>. The token \<open>x.e30.y\<close> has the payload
  \<open>{}\<close>, valid JSON without \<open>exp\<close>: the comparison of \<^verbatim>\<open>undefined\<close> with the current time is
  false, nothing is thrown, and the token is reported as not expired, whatever the time. The
  other parts of the claim hold: a token that cannot be decoded or parsed is expired
  (\<open>isTokenExpired_unparsable\<close>, \<open>isTokenExpired_one_segment\<close>), and a numeric \<open>exp\<close> is
  compared with the current time (\<open>isTokenExpired_numeric_exp\<close>).
\<close>

theorem isTokenExpired_missing_exp:
  "JSON_parse ''{}'' = Some (JObj []) \<Longrightarrow>
   token_segment ''x.e30.y'' = ''e30'' \<and> atob ''e30'' = Some ''{}''
   \<and> isTokenExpired JSON_parse ToNumber currentTime ''x.e30.y'' = False"
proof -
  assume parse: "JSON_parse ''{}'' = Some (JObj [])"
  have segment: "token_segment ''x.e30.y'' = ''e30''"
    by code_simp
  have decoded: "atob ''e30'' = Some ''{}''"
    by code_simp
  from parse segment decoded show ?thesis
    by (simp add: isTokenExpired_def get_property_def less_than_number_def)
qed

theorem isTokenExpired_missing_exp_witness:
  "isTokenExpired (\<lambda>s. if s = ''{}'' then Some (JObj []) else None) (\<lambda>j. Some NaN) 1700000000
     ''x.e30.y'' = False"
  using isTokenExpired_missing_exp
          [of "\<lambda>s. if s = ''{}'' then Some (JObj []) else None" "\<lambda>j. Some NaN" 1700000000]
  by simp

end
